theory Spec2Isabelle
  imports Complex_Main
begin

section \<open>Sistema Sentinela: zone classification, state machine and dispatch decisions\<close>

text \<open>
  Shallow embedding of the Python modules under \<^verbatim>\<open>src/sentinela\<close>. Python floats are
  modelled as \<^typ>\<open>real\<close> (exact arithmetic), zone names stay strings as in the source,
  a Python value that may be \<^verbatim>\<open>None\<close> is an \<^typ>\<open>'a option\<close>, and every exception
  the source can raise is a value \<open>Inl e\<close> of a sum type.
\<close>

subsection \<open>config.py: thresholds\<close>

definition LIMITE_TEMP :: real where "LIMITE_TEMP = 0.5"
definition LIMITE_UMIDADE :: real where "LIMITE_UMIDADE = 5"
definition LIMITE_PRESSAO :: real where "LIMITE_PRESSAO = 2.0"
definition TEMP_BAIXA :: real where "TEMP_BAIXA = 18.0"
definition CHUVA_ACUMULADA_ALERTA :: real where "CHUVA_ACUMULADA_ALERTA = 50.0"

text \<open>The dictionary \<^verbatim>\<open>Config.RAD_LIMITS\<close>, one constant per key that the code reads.\<close>

definition RAD_LIMITS_BAIXA :: real where "RAD_LIMITS_BAIXA = 1000"
definition RAD_LIMITS_MODERADA :: real where "RAD_LIMITS_MODERADA = 2000"
definition RAD_LIMITS_ALTA :: real where "RAD_LIMITS_ALTA = 2500"
definition RAD_LIMITS_MUITO_ALTA :: real where "RAD_LIMITS_MUITO_ALTA = 3000"
definition RAD_LIMITS_EXTREMA :: real where "RAD_LIMITS_EXTREMA = 3000"

text \<open>The dictionary \<^verbatim>\<open>Config.CHUVA_LIMITS\<close>.\<close>

definition CHUVA_LIMITS_GAROA :: real where "CHUVA_LIMITS_GAROA = 2.5"
definition CHUVA_LIMITS_FRACA :: real where "CHUVA_LIMITS_FRACA = 10"
definition CHUVA_LIMITS_MODERADA :: real where "CHUVA_LIMITS_MODERADA = 30"
definition CHUVA_LIMITS_FORTE :: real where "CHUVA_LIMITS_FORTE = 50"
definition CHUVA_LIMITS_MUITO_FORTE :: real where "CHUVA_LIMITS_MUITO_FORTE = 50"

text \<open>The Beaufort constants at the top of \<^verbatim>\<open>zona_vento.py\<close>.\<close>

definition VENTO_CALMO :: real where "VENTO_CALMO = 0.3"
definition VENTO_ARAGEM :: real where "VENTO_ARAGEM = 1.5"
definition VENTO_BRISA_LEVE :: real where "VENTO_BRISA_LEVE = 3.3"
definition VENTO_BRISA_MODERADA :: real where "VENTO_BRISA_MODERADA = 5.4"
definition VENTO_BRISA_FRESCA :: real where "VENTO_BRISA_FRESCA = 7.9"
definition VENTO_MODERADO :: real where "VENTO_MODERADO = 10.7"
definition VENTO_FORTE :: real where "VENTO_FORTE = 13.8"

definition CONFORTO_FRIO :: real where "CONFORTO_FRIO = 19.0"
definition CONFORTO_FRESCO :: real where "CONFORTO_FRESCO = 21.0"
definition CONFORTO_IDEAL :: real where "CONFORTO_IDEAL = 24.0"
definition CONFORTO_MORNO :: real where "CONFORTO_MORNO = 27.0"
definition CONFORTO_QUENTE :: real where "CONFORTO_QUENTE = 30.0"
definition CONFORTO_MUITO_QUENTE :: real where "CONFORTO_MUITO_QUENTE = 33.0"

lemmas config_defs =
  LIMITE_TEMP_def LIMITE_UMIDADE_def LIMITE_PRESSAO_def TEMP_BAIXA_def
  CHUVA_ACUMULADA_ALERTA_def
  RAD_LIMITS_BAIXA_def RAD_LIMITS_MODERADA_def RAD_LIMITS_ALTA_def
  RAD_LIMITS_MUITO_ALTA_def RAD_LIMITS_EXTREMA_def
  CHUVA_LIMITS_GAROA_def CHUVA_LIMITS_FRACA_def CHUVA_LIMITS_MODERADA_def
  CHUVA_LIMITS_FORTE_def CHUVA_LIMITS_MUITO_FORTE_def
  VENTO_CALMO_def VENTO_ARAGEM_def VENTO_BRISA_LEVE_def VENTO_BRISA_MODERADA_def
  VENTO_BRISA_FRESCA_def VENTO_MODERADO_def VENTO_FORTE_def
  CONFORTO_FRIO_def CONFORTO_FRESCO_def CONFORTO_IDEAL_def CONFORTO_MORNO_def
  CONFORTO_QUENTE_def CONFORTO_MUITO_QUENTE_def

subsection \<open>The six \<^verbatim>\<open>classificar\<close> methods\<close>

definition ZonaTemperatura_classificar :: "real \<Rightarrow> string" where
  "ZonaTemperatura_classificar temperatura =
     (if temperatura < CONFORTO_FRIO then ''FRIO''
      else if temperatura < CONFORTO_FRESCO then ''FRESCO''
      else if temperatura < CONFORTO_IDEAL then ''IDEAL''
      else if temperatura < CONFORTO_MORNO then ''MORNO''
      else if temperatura < CONFORTO_QUENTE then ''QUENTE''
      else if temperatura < CONFORTO_MUITO_QUENTE then ''MUITO_QUENTE''
      else ''EXTREMO'')"

definition ZonaUmidade_classificar :: "real \<Rightarrow> string" where
  "ZonaUmidade_classificar umidade =
     (if umidade < 30 then ''MUITO_SECA''
      else if umidade < 40 then ''SECA''
      else if umidade < 50 then ''BOA''
      else if umidade < 70 then ''OTIMA''
      else if umidade < 85 then ''ALTA''
      else ''MUITO_ALTA'')"

definition ZonaVento_classificar :: "real \<Rightarrow> string" where
  "ZonaVento_classificar velocidade =
     (if velocidade < VENTO_CALMO then ''CALMO''
      else if velocidade < VENTO_ARAGEM then ''ARAGEM''
      else if velocidade < VENTO_BRISA_LEVE then ''BRISA_LEVE''
      else if velocidade < VENTO_BRISA_MODERADA then ''BRISA_MODERADA''
      else if velocidade < VENTO_BRISA_FRESCA then ''BRISA_FRESCA''
      else if velocidade < VENTO_MODERADO then ''MODERADO''
      else if velocidade < VENTO_FORTE then ''FORTE''
      else ''VENTANIA'')"

definition ZonaChuva_classificar :: "real \<Rightarrow> string" where
  "ZonaChuva_classificar chuva_mm =
     (if chuva_mm = 0 then ''SEM_CHUVA''
      else if chuva_mm < CHUVA_LIMITS_GAROA then ''GAROA''
      else if chuva_mm < CHUVA_LIMITS_FRACA then ''FRACA''
      else if chuva_mm < CHUVA_LIMITS_MODERADA then ''MODERADA''
      else if chuva_mm < CHUVA_LIMITS_FORTE then ''FORTE''
      else ''MUITO_FORTE'')"

definition ZonaRadiacao_classificar :: "real \<Rightarrow> string" where
  "ZonaRadiacao_classificar radiacao =
     (if radiacao \<le> 0 then ''NOITE''
      else if radiacao < 50 then ''CREPUSCULO''
      else if radiacao < RAD_LIMITS_BAIXA then ''BAIXA''
      else if radiacao < RAD_LIMITS_MODERADA then ''MODERADA''
      else if radiacao < RAD_LIMITS_ALTA then ''ALTA''
      else if radiacao < RAD_LIMITS_MUITO_ALTA then ''MUITO_ALTA''
      else ''EXTREMA'')"

definition ZonaPressao_classificar :: "real \<Rightarrow> string" where
  "ZonaPressao_classificar pressao =
     (if pressao < 1005 then ''MUITO_BAIXA''
      else if pressao < 1010 then ''BAIXA''
      else if pressao < 1020 then ''NORMAL''
      else if pressao < 1025 then ''ALTA''
      else ''MUITO_ALTA'')"

subsection \<open>The table of section 4.1 of the specification\<close>

text \<open>
  The second side of the comparison, written from the specification's table and not from the
  code: every row is a zone with the test that bounds it from above, the rows are tried in
  order, and the last zone takes every value that no row accepts.
\<close>

datatype limite = Menor real | Menor_igual real | Igual real

fun dentro :: "limite \<Rightarrow> real \<Rightarrow> bool" where
  "dentro (Menor b) x = (x < b)"
| "dentro (Menor_igual b) x = (x \<le> b)"
| "dentro (Igual b) x = (x = b)"

fun spec_classify :: "(string \<times> limite) list \<Rightarrow> string \<Rightarrow> real \<Rightarrow> string" where
  "spec_classify [] ultima x = ultima"
| "spec_classify ((z, b) # linhas) ultima x =
     (if dentro b x then z else spec_classify linhas ultima x)"

definition spec_tabela_temperatura :: "(string \<times> limite) list" where
  "spec_tabela_temperatura =
     [(''FRIO'', Menor 19.0), (''FRESCO'', Menor 21.0), (''IDEAL'', Menor 24.0),
      (''MORNO'', Menor 27.0), (''QUENTE'', Menor 30.0), (''MUITO_QUENTE'', Menor 33.0)]"

definition spec_tabela_umidade :: "(string \<times> limite) list" where
  "spec_tabela_umidade =
     [(''MUITO_SECA'', Menor 30), (''SECA'', Menor 40), (''BOA'', Menor 50),
      (''OTIMA'', Menor 70), (''ALTA'', Menor 85)]"

definition spec_tabela_vento :: "(string \<times> limite) list" where
  "spec_tabela_vento =
     [(''CALMO'', Menor 0.3), (''ARAGEM'', Menor 1.5), (''BRISA_LEVE'', Menor 3.3),
      (''BRISA_MODERADA'', Menor 5.4), (''BRISA_FRESCA'', Menor 7.9),
      (''MODERADO'', Menor 10.7), (''FORTE'', Menor 13.8)]"

definition spec_tabela_chuva :: "(string \<times> limite) list" where
  "spec_tabela_chuva =
     [(''SEM_CHUVA'', Igual 0), (''GAROA'', Menor 2.5), (''FRACA'', Menor 10),
      (''MODERADA'', Menor 30), (''FORTE'', Menor 50)]"

definition spec_tabela_radiacao :: "(string \<times> limite) list" where
  "spec_tabela_radiacao =
     [(''NOITE'', Menor_igual 0), (''CREPUSCULO'', Menor 50), (''BAIXA'', Menor 1000),
      (''MODERADA'', Menor 2000), (''ALTA'', Menor 2500), (''MUITO_ALTA'', Menor 3000)]"

definition spec_tabela_pressao :: "(string \<times> limite) list" where
  "spec_tabela_pressao =
     [(''MUITO_BAIXA'', Menor 1005), (''BAIXA'', Menor 1010), (''NORMAL'', Menor 1020),
      (''ALTA'', Menor 1025)]"

subsection \<open>Python values, exceptions and time\<close>

datatype erro = KeyError | TypeError | Outro_erro

text \<open>
  A naive local \<^verbatim>\<open>datetime\<close> is its number of microseconds since a fixed origin; its
  \<^verbatim>\<open>.date()\<close> is the day number. One cycle reads the clock once (\<open>agora\<close>).
\<close>

type_synonym datetime = int

definition date :: "datetime \<Rightarrow> int" where
  "date t = t div 86400000000"


text \<open>
  A string field of the state document that holds an ISO timestamp is represented by
  what \<^verbatim>\<open>datetime.fromisoformat\<close> makes of it: a \<^verbatim>\<open>datetime\<close>, or a
  \<^verbatim>\<open>ValueError\<close> (which the callers swallow). The empty string is \<open>Malformado\<close> too:
  the callers treat a falsy string and an unparsable one alike.
\<close>

datatype texto_iso = Malformado | Isoformat datetime

fun fromisoformat :: "texto_iso \<Rightarrow> datetime option" where
  "fromisoformat Malformado = None"
| "fromisoformat (Isoformat t) = Some t"

text \<open>
  A reading (a row of \<^verbatim>\<open>medicoes\<close> as a dictionary): column name to value, where a
  value is a number or \<^verbatim>\<open>None\<close> (SQL NULL). An association list, so that an empty
  dictionary can be told from a missing one.
\<close>

type_synonym leitura = "(string \<times> real option) list"



definition entao :: "erro + 'a \<Rightarrow> ('a \<Rightarrow> erro + 'b) \<Rightarrow> erro + 'b" where
  \<comment> \<open>sequencing: an exception of the first statement skips the rest\<close>
  "entao m f = (case m of Inl e \<Rightarrow> Inl e | Inr x \<Rightarrow> f x)"

subsection \<open>state_manager.py: the state document\<close>

record estado_zona =
  zona :: "string option"
  valor :: "real option"
  ultima_mudanca :: "datetime option"

record estado_critico =
  ativo :: bool
  critico_ultima_mudanca :: datetime

record estado_geral =
  ultima_temp :: "real option"
  ultima_umid :: "real option"
  ultima_pressao :: "real option"
  ultimo_envio :: "texto_iso option"

record estado_relatorios =
  ultimo_bom_dia :: "texto_iso option"
  ultimo_boa_noite :: "texto_iso option"

text \<open>
  \<^verbatim>\<open>self.states\<close>. The zone entries are the top-level keys \<^verbatim>\<open>temperatura\<close>, ...,
  \<^verbatim>\<open>pressao\<close>; a top-level key that the code reads with \<^verbatim>\<open>.get(key, default)\<close> or
  tests with \<^verbatim>\<open>in\<close> may be absent (\<open>None\<close>).
\<close>

record estados =
  timestamp :: datetime
  zonas :: "string \<rightharpoonup> estado_zona"
  alerta_geral :: "estado_geral option"
  relatorios :: "estado_relatorios option"
  alertas_criticos :: "(string \<rightharpoonup> estado_critico) option"

definition zona_vazia :: estado_zona where
  "zona_vazia = \<lparr>zona = None, valor = None, ultima_mudanca = None\<rparr>"

definition create_default_states :: "datetime \<Rightarrow> estados" where
  "create_default_states agora =
     \<lparr>timestamp = agora,
      zonas = [''temperatura'' \<mapsto> zona_vazia, ''umidade'' \<mapsto> zona_vazia,
               ''vento'' \<mapsto> zona_vazia, ''chuva'' \<mapsto> zona_vazia,
               ''radiacao'' \<mapsto> zona_vazia, ''pressao'' \<mapsto> zona_vazia],
      alerta_geral = Some \<lparr>ultima_temp = None, ultima_umid = None,
                            ultima_pressao = None, ultimo_envio = None\<rparr>,
      relatorios = Some \<lparr>ultimo_bom_dia = None, ultimo_boa_noite = None\<rparr>,
      alertas_criticos = None\<rparr>"


definition update_zone_state :: "datetime \<Rightarrow> string \<Rightarrow> string \<Rightarrow> real \<Rightarrow> estados \<Rightarrow> estados" where
  "update_zone_state agora zona_nome zona_atual valor_atual st =
     st\<lparr>zonas := (zonas st)(zona_nome \<mapsto>
           \<lparr>zona = Some zona_atual, valor = Some valor_atual, ultima_mudanca = Some agora\<rparr>)\<rparr>"


definition update_report :: "datetime \<Rightarrow> string \<Rightarrow> estados \<Rightarrow> erro + estados" where
  \<comment> \<open>\<^verbatim>\<open>self.states['relatorios'][...] = ...\<close> raises KeyError without the key\<close>
  "update_report agora tipo st =
     (case relatorios st of
        None \<Rightarrow> (if tipo = ''bom_dia'' \<or> tipo = ''boa_noite'' then Inl KeyError else Inr st)
      | Some r \<Rightarrow>
          if tipo = ''bom_dia''
          then Inr (st\<lparr>relatorios := Some (r\<lparr>ultimo_bom_dia := Some (Isoformat agora)\<rparr>)\<rparr>)
          else if tipo = ''boa_noite''
          then Inr (st\<lparr>relatorios := Some (r\<lparr>ultimo_boa_noite := Some (Isoformat agora)\<rparr>)\<rparr>)
          else Inr st)"

definition garante_alertas_criticos :: "estados \<Rightarrow> estados" where
  \<comment> \<open>\<^verbatim>\<open>if 'alertas_criticos' not in self.states: self.states['alertas_criticos'] = {}\<close>\<close>
  "garante_alertas_criticos st =
     (case alertas_criticos st of
        None \<Rightarrow> st\<lparr>alertas_criticos := Some Map.empty\<rparr>
      | Some _ \<Rightarrow> st)"

definition criticos_de :: "estados \<Rightarrow> string \<rightharpoonup> estado_critico" where
  "criticos_de st = (case alertas_criticos st of None \<Rightarrow> Map.empty | Some m \<Rightarrow> m)"

definition get_critical_state :: "string \<Rightarrow> estados \<Rightarrow> bool \<times> estados" where
  "get_critical_state tipo_critico st =
     ((case criticos_de st tipo_critico of None \<Rightarrow> False | Some c \<Rightarrow> ativo c),
      garante_alertas_criticos st)"

definition update_critical_state :: "datetime \<Rightarrow> string \<Rightarrow> bool \<Rightarrow> estados \<Rightarrow> estados" where
  "update_critical_state agora tipo_critico a st =
     st\<lparr>alertas_criticos := Some ((criticos_de st)(tipo_critico \<mapsto>
           \<lparr>ativo = a, critico_ultima_mudanca = agora\<rparr>))\<rparr>"

definition should_send_critical :: "string \<Rightarrow> bool \<Rightarrow> estados \<Rightarrow> bool \<times> estados" where
  "should_send_critical tipo_critico ativo_agora st =
     (let (estado_anterior, st') = get_critical_state tipo_critico st
      in (if estado_anterior \<noteq> ativo_agora then True else False, st'))"

subsection \<open>Zone changes: \<^verbatim>\<open>detectar_mudanca\<close> and \<^verbatim>\<open>gerar_alerta_inteligente\<close>\<close>

text \<open>
  The dictionary a detector returns has the key \<^verbatim>\<open>tipo\<close> with one of two values, and
  the other keys depend on it: a tagged union. \<open>Mudanca_zona\<close> carries
  \<^verbatim>\<open>zona_anterior\<close>, \<^verbatim>\<open>zona_atual\<close>, \<^verbatim>\<open>valor_anterior\<close>, \<^verbatim>\<open>valor_atual\<close> and
  \<^verbatim>\<open>timestamp\<close>, in this order.
\<close>

datatype mudanca =
  Primeira_leitura string real
| Mudanca_zona string string "real option" real datetime

fun zona_atual_de :: "mudanca \<Rightarrow> string" where
  "zona_atual_de (Primeira_leitura z v) = z"
| "zona_atual_de (Mudanca_zona za z va v ts) = z"

text \<open>
  The six \<^verbatim>\<open>detectar_mudanca\<close> methods have the same body and differ in the classifier
  they call, which is the first argument here.
\<close>

definition detectar_mudanca :: "(real \<Rightarrow> string) \<Rightarrow> datetime \<Rightarrow> real \<Rightarrow> estado_zona \<Rightarrow> mudanca option" where
  "detectar_mudanca classificar agora valor_atual estado_anterior =
     (let zona_atual = classificar valor_atual;
          zona_anterior = zona estado_anterior;
          valor_anterior = valor estado_anterior
      in case zona_anterior of
           None \<Rightarrow> Some (Primeira_leitura zona_atual valor_atual)
         | Some za \<Rightarrow>
             if zona_atual \<noteq> za
             then Some (Mudanca_zona za zona_atual valor_anterior valor_atual agora)
             else None)"

definition ZonaTemperatura_detectar_mudanca :: "datetime \<Rightarrow> real \<Rightarrow> estado_zona \<Rightarrow> mudanca option" where
  "ZonaTemperatura_detectar_mudanca = detectar_mudanca ZonaTemperatura_classificar"

definition ZonaUmidade_detectar_mudanca :: "datetime \<Rightarrow> real \<Rightarrow> estado_zona \<Rightarrow> mudanca option" where
  "ZonaUmidade_detectar_mudanca = detectar_mudanca ZonaUmidade_classificar"

definition ZonaVento_detectar_mudanca :: "datetime \<Rightarrow> real \<Rightarrow> estado_zona \<Rightarrow> mudanca option" where
  "ZonaVento_detectar_mudanca = detectar_mudanca ZonaVento_classificar"

definition ZonaChuva_detectar_mudanca :: "datetime \<Rightarrow> real \<Rightarrow> estado_zona \<Rightarrow> mudanca option" where
  "ZonaChuva_detectar_mudanca = detectar_mudanca ZonaChuva_classificar"

definition ZonaRadiacao_detectar_mudanca :: "datetime \<Rightarrow> real \<Rightarrow> estado_zona \<Rightarrow> mudanca option" where
  "ZonaRadiacao_detectar_mudanca = detectar_mudanca ZonaRadiacao_classificar"

definition ZonaPressao_detectar_mudanca :: "datetime \<Rightarrow> real \<Rightarrow> estado_zona \<Rightarrow> mudanca option" where
  "ZonaPressao_detectar_mudanca = detectar_mudanca ZonaPressao_classificar"

lemmas detectar_defs =
  ZonaTemperatura_detectar_mudanca_def ZonaUmidade_detectar_mudanca_def
  ZonaVento_detectar_mudanca_def ZonaChuva_detectar_mudanca_def
  ZonaRadiacao_detectar_mudanca_def ZonaPressao_detectar_mudanca_def

text \<open>The keys of the dictionaries \<^verbatim>\<open>emojis\<close> and \<^verbatim>\<open>descricoes\<close> of each renderer.\<close>

definition zonas_temperatura :: "string list" where
  "zonas_temperatura =
     [''FRIO'', ''FRESCO'', ''IDEAL'', ''MORNO'', ''QUENTE'', ''MUITO_QUENTE'', ''EXTREMO'']"

definition zonas_umidade :: "string list" where
  "zonas_umidade = [''MUITO_SECA'', ''SECA'', ''BOA'', ''OTIMA'', ''ALTA'', ''MUITO_ALTA'']"

definition zonas_vento :: "string list" where
  "zonas_vento =
     [''CALMO'', ''ARAGEM'', ''BRISA_LEVE'', ''BRISA_MODERADA'', ''BRISA_FRESCA'',
      ''MODERADO'', ''FORTE'', ''VENTANIA'']"

definition zonas_chuva :: "string list" where
  "zonas_chuva = [''SEM_CHUVA'', ''GAROA'', ''FRACA'', ''MODERADA'', ''FORTE'', ''MUITO_FORTE'']"

definition zonas_radiacao :: "string list" where
  "zonas_radiacao =
     [''NOITE'', ''CREPUSCULO'', ''BAIXA'', ''MODERADA'', ''ALTA'', ''MUITO_ALTA'', ''EXTREMA'']"

definition zonas_pressao :: "string list" where
  "zonas_pressao = [''MUITO_BAIXA'', ''BAIXA'', ''NORMAL'', ''ALTA'', ''MUITO_ALTA'']"

text \<open>
  Critical alerts: the dictionaries that the \<^verbatim>\<open>verificar_critico\<close> methods append, again
  a tagged union over the key \<^verbatim>\<open>tipo\<close>, with the other keys as arguments in the order
  of the source.
\<close>

datatype alerta_critico =
  Calor_extremo real real
| Frio_extremo real real
| Mudanca_brusca real real real string
| Ar_muito_seco real
| Vento_forte real real string
| Chuva_intensa real real
| Chuva_acumulada real real
| Uv_extremo real int
| Queda_brusca real real
| Pressao_muito_baixa real

fun tipo_de :: "alerta_critico \<Rightarrow> string" where
  "tipo_de (Calor_extremo t l) = ''calor_extremo''"
| "tipo_de (Frio_extremo t l) = ''frio_extremo''"
| "tipo_de (Mudanca_brusca d ta t dir) = ''mudanca_brusca''"
| "tipo_de (Ar_muito_seco u) = ''ar_muito_seco''"
| "tipo_de (Vento_forte v r b) = ''vento_forte''"
| "tipo_de (Chuva_intensa i a) = ''chuva_intensa''"
| "tipo_de (Chuva_acumulada i a) = ''chuva_acumulada''"
| "tipo_de (Uv_extremo r u) = ''uv_extremo''"
| "tipo_de (Queda_brusca p d) = ''queda_brusca''"
| "tipo_de (Pressao_muito_baixa p) = ''pressao_muito_baixa''"

text \<open>
  A message is represented by what its template interpolates; the fixed text, the emojis
  and the tips of the templates are left out. The composite messages of
  \<^verbatim>\<open>message_composer.py\<close> are tokens.
\<close>

datatype mensagem =
  Alerta_inteligente string string string real real datetime
| Alerta_critico alerta_critico
| Relatorio_bom_dia
| Relatorio_boa_noite
| Alerta_geral

text \<open>
  The renderers of temperature, humidity, wind, rain and pressure: \<^verbatim>\<open>None\<close> for a first
  reading; otherwise the f-string is evaluated from left to right, and it raises where it
  looks up an unknown zone (\<^verbatim>\<open>emojis[zona_atual]\<close>, \<^verbatim>\<open>descricoes[zona_ant]\<close>) or formats
  a prior value that is \<^verbatim>\<open>None\<close>.
\<close>

definition gerar_alerta_inteligente :: "string \<Rightarrow> string list \<Rightarrow> mudanca \<Rightarrow> erro + mensagem option" where
  "gerar_alerta_inteligente dominio conhecidas m =
     (case m of
        Primeira_leitura z v \<Rightarrow> Inr None
      | Mudanca_zona zona_ant zona_atual valor_ant valor_atual ts \<Rightarrow>
          if zona_atual \<notin> set conhecidas then Inl KeyError
          else (case valor_ant of
                  None \<Rightarrow> Inl TypeError
                | Some va \<Rightarrow>
                    if zona_ant \<notin> set conhecidas then Inl KeyError
                    else Inr (Some (Alerta_inteligente dominio zona_ant zona_atual va
                                      valor_atual ts))))"


definition ZonaRadiacao_gerar_alerta_inteligente :: "mudanca \<Rightarrow> erro + mensagem option" where
  \<comment> \<open>\<^verbatim>\<open>estimar_uv(rad_ant)\<close> is called before the template and compares the prior value\<close>
  "ZonaRadiacao_gerar_alerta_inteligente m =
     (case m of
        Primeira_leitura z v \<Rightarrow> Inr None
      | Mudanca_zona zona_ant zona_atual valor_ant valor_atual ts \<Rightarrow>
          (case valor_ant of
             None \<Rightarrow> Inl TypeError
           | Some va \<Rightarrow>
               if zona_atual \<notin> set zonas_radiacao then Inl KeyError
               else if zona_ant \<notin> set zonas_radiacao then Inl KeyError
               else Inr (Some (Alerta_inteligente ''radiacao'' zona_ant zona_atual va
                                 valor_atual ts))))"

definition ZonaTemperatura_gerar_alerta_inteligente :: "mudanca \<Rightarrow> erro + mensagem option" where
  "ZonaTemperatura_gerar_alerta_inteligente =
     gerar_alerta_inteligente ''temperatura'' zonas_temperatura"

definition ZonaUmidade_gerar_alerta_inteligente :: "mudanca \<Rightarrow> erro + mensagem option" where
  "ZonaUmidade_gerar_alerta_inteligente = gerar_alerta_inteligente ''umidade'' zonas_umidade"

definition ZonaVento_gerar_alerta_inteligente :: "mudanca \<Rightarrow> erro + mensagem option" where
  "ZonaVento_gerar_alerta_inteligente = gerar_alerta_inteligente ''vento'' zonas_vento"

definition ZonaChuva_gerar_alerta_inteligente :: "mudanca \<Rightarrow> erro + mensagem option" where
  "ZonaChuva_gerar_alerta_inteligente = gerar_alerta_inteligente ''chuva'' zonas_chuva"

definition ZonaPressao_gerar_alerta_inteligente :: "mudanca \<Rightarrow> erro + mensagem option" where
  "ZonaPressao_gerar_alerta_inteligente = gerar_alerta_inteligente ''pressao'' zonas_pressao"

lemmas gerar_defs =
  ZonaTemperatura_gerar_alerta_inteligente_def ZonaUmidade_gerar_alerta_inteligente_def
  ZonaVento_gerar_alerta_inteligente_def ZonaChuva_gerar_alerta_inteligente_def
  ZonaPressao_gerar_alerta_inteligente_def

subsection \<open>Critical conditions: the \<^verbatim>\<open>verificar_critico\<close> methods\<close>

definition lista_ou_None :: "'a list \<Rightarrow> 'a list option" where
  \<comment> \<open>\<^verbatim>\<open>return alertas if alertas else None\<close>\<close>
  "lista_ou_None alertas = (if alertas = [] then None else Some alertas)"

definition emite :: "alerta_critico list option \<Rightarrow> string \<Rightarrow> bool" where
  \<comment> \<open>the result of a \<^verbatim>\<open>verificar_critico\<close> holds an alert of the given \<^verbatim>\<open>tipo\<close>\<close>
  "emite criticos t = (case criticos of None \<Rightarrow> False | Some cs \<Rightarrow> t \<in> set (map tipo_de cs))"

definition get_campo :: "leitura \<Rightarrow> string \<Rightarrow> real option" where
  \<comment> \<open>\<^verbatim>\<open>leitura.get(k)\<close>: None for a missing key and for a stored None\<close>
  "get_campo l k = (case map_of l k of None \<Rightarrow> None | Some v \<Rightarrow> v)"

definition ZonaTemperatura_verificar_critico :: "real \<Rightarrow> leitura option \<Rightarrow> alerta_critico list option" where
  "ZonaTemperatura_verificar_critico temp_atual leitura_anterior =
     (let alertas1 = (if temp_atual > CONFORTO_MUITO_QUENTE
                      then [Calor_extremo temp_atual CONFORTO_MUITO_QUENTE] else []);
          alertas2 = alertas1 @ (if temp_atual < TEMP_BAIXA
                                 then [Frio_extremo temp_atual TEMP_BAIXA] else []);
          alertas3 = alertas2 @
            (case leitura_anterior of
               None \<Rightarrow> []
             | Some l \<Rightarrow>
                 if l = [] then []
                 else (case get_campo l ''tem_ins'' of
                         None \<Rightarrow> []
                       | Some temp_anterior \<Rightarrow>
                           if temp_anterior = 0 then []
                           else (let delta = temp_atual - temp_anterior
                                 in if \<bar>delta\<bar> \<ge> 5.0
                                    then [Mudanca_brusca delta temp_anterior temp_atual
                                            (if delta < 0 then ''queda'' else ''subida'')]
                                    else [])))
      in lista_ou_None alertas3)"






definition ZonaPressao_verificar_critico :: "real \<Rightarrow> real \<Rightarrow> alerta_critico list option" where
  "ZonaPressao_verificar_critico pressao_atual delta_1h =
     lista_ou_None
       (if delta_1h < - 5.0 then [Queda_brusca pressao_atual delta_1h]
        else if pressao_atual < 1005 then [Pressao_muito_baixa pressao_atual]
        else [])"


subsection \<open>state_manager.py: general alert and reports\<close>






definition ja_enviou_hoje :: "datetime \<Rightarrow> texto_iso option \<Rightarrow> bool" where
  \<comment> \<open>the test under \<^verbatim>\<open>if ultimo:\<close> in \<^verbatim>\<open>should_send_report\<close>; a parse error is swallowed\<close>
  "ja_enviou_hoje agora ultimo =
     (case ultimo of
        None \<Rightarrow> False
      | Some txt \<Rightarrow>
          (case fromisoformat txt of
             None \<Rightarrow> False
           | Some ultimo_dt \<Rightarrow> date ultimo_dt = date agora))"

definition relatorios_de :: "estados \<Rightarrow> estado_relatorios" where
  \<comment> \<open>\<^verbatim>\<open>self.states.get('relatorios', {})\<close>, read with \<^verbatim>\<open>.get\<close> only\<close>
  "relatorios_de st =
     (case relatorios st of
        None \<Rightarrow> \<lparr>ultimo_bom_dia = None, ultimo_boa_noite = None\<rparr>
      | Some r \<Rightarrow> r)"

definition should_send_report :: "datetime \<Rightarrow> string \<Rightarrow> real \<Rightarrow> real option \<Rightarrow> estados \<Rightarrow> bool" where
  "should_send_report agora tipo rad_atual rad_anterior st =
     (if tipo = ''bom_dia'' then
        (case rad_anterior of
           None \<Rightarrow> False
         | Some ra \<Rightarrow>
             if ra \<le> 0 \<and> rad_atual > 0
             then (if ja_enviou_hoje agora (ultimo_bom_dia (relatorios_de st))
                   then False else True)
             else False)
      else if tipo = ''boa_noite'' then
        (case rad_anterior of
           None \<Rightarrow> False
         | Some ra \<Rightarrow>
             if ra > 0 \<and> rad_atual \<le> 0
             then (if ja_enviou_hoje agora (ultimo_boa_noite (relatorios_de st))
                   then False else True)
             else False)
      else False)"

subsection \<open>main.py: what one cycle receives from its collaborators\<close>

text \<open>
  The database, the message composer and the WhatsApp sender are outside the decision
  engine. One cycle sees them through the values they return, collected in a record:
  \<^item> \<open>conecta\<close>: the result of \<^verbatim>\<open>db.connect()\<close>;
  \<^item> \<open>latest_reading\<close>, \<open>reading_1h\<close>, \<open>reading_3h\<close>: \<^verbatim>\<open>get_latest_reading()\<close> and
    \<^verbatim>\<open>get_reading_hours_ago(1)\<close>, \<^verbatim>\<open>(3)\<close>;
  \<^item> \<open>accumulated_rain_24h\<close>, \<open>pressure_variation_1h\<close>: the aggregate queries,
    which catch their own exceptions and return a number (the 3-hour variations only
    decorate message texts);
  \<^item> \<open>night_summary\<close>, \<open>day_summary\<close>: whether the summary query returned a non-empty
    result;
  \<^item> \<open>insights_ok\<close>, \<open>compoe\<close>: whether \<^verbatim>\<open>MessageComposer.gerar_insights\<close> and the
    composer of the given message return (otherwise they raise);
  \<^item> \<open>enviar_whatsapp\<close>: whether the send of the given message succeeds (the function of
    \<^verbatim>\<open>main.py\<close> catches every exception and returns a boolean);
  \<^item> \<open>agora\<close>: the clock.
\<close>

record ambiente =
  conecta :: bool
  latest_reading :: "leitura option"
  reading_1h :: "leitura option"
  reading_3h :: "leitura option"
  accumulated_rain_24h :: real
  pressure_variation_1h :: real
  night_summary :: bool
  day_summary :: bool
  insights_ok :: bool
  compoe :: "mensagem \<Rightarrow> bool"
  enviar_whatsapp :: "mensagem \<Rightarrow> bool"
  agora :: datetime

definition compor :: "ambiente \<Rightarrow> mensagem \<Rightarrow> erro + mensagem" where
  "compor env m = (if compoe env m then Inr m else Inl Outro_erro)"

subsection \<open>main.py: \<^verbatim>\<open>processar_zonas\<close>\<close>

type_synonym alertas_inteligentes = "(string \<times> mudanca \<times> mensagem) list"
type_synonym alertas_criticos = "(string \<times> alerta_critico) list"
type_synonym estados_atuais = "(string \<times> string \<times> real) list"

definition registrar_mudanca :: "string \<Rightarrow> mudanca option \<Rightarrow> (mudanca \<Rightarrow> erro + mensagem option) \<Rightarrow> real \<Rightarrow> alertas_inteligentes \<times> estados_atuais \<Rightarrow> erro + (alertas_inteligentes \<times> estados_atuais)" where
  \<comment> \<open>the block \<^verbatim>\<open>if mudanca: ...\<close> that follows each call of a detector\<close>
  "registrar_mudanca dominio mud gerar valor_atual acc =
     (case acc of (ai, ea) \<Rightarrow>
        (case mud of
           None \<Rightarrow> Inr (ai, ea)
         | Some m \<Rightarrow>
             let ea' = ea @ [(dominio, zona_atual_de m, valor_atual)]
             in (case m of
                   Primeira_leitura z v \<Rightarrow> Inr (ai, ea')
                 | Mudanca_zona za z va v ts \<Rightarrow>
                     entao (gerar m) (\<lambda>msg.
                       case msg of
                         None \<Rightarrow> Inr (ai, ea')
                       | Some texto \<Rightarrow> Inr (ai @ [(dominio, m, texto)], ea')))))"











subsection \<open>main.py: the cycle\<close>

definition tipos_criticos :: "string list" where
  "tipos_criticos =
     [''calor_extremo'', ''frio_extremo'', ''mudanca_brusca'',
      ''ar_muito_seco'', ''vento_forte'',
      ''chuva_intensa'', ''chuva_acumulada'',
      ''uv_extremo'', ''queda_brusca'', ''pressao_muito_baixa'']"

definition atualizar_zonas :: "datetime \<Rightarrow> estados_atuais \<Rightarrow> estados \<Rightarrow> estados" where
  \<comment> \<open>\<^verbatim>\<open>for zona_nome, (zona_atual, valor_atual) in estados_atuais.items(): update_zone_state\<close>\<close>
  "atualizar_zonas agr ea st =
     foldl (\<lambda>s (zona_nome, zona_atual, valor_atual).
              update_zone_state agr zona_nome zona_atual valor_atual s) st ea"

definition gerar_alerta_critico :: "alerta_critico \<Rightarrow> mensagem option" where
  \<comment> \<open>the generator that \<^verbatim>\<open>main\<close> selects by \<^verbatim>\<open>tipo\<close> returns a text for each of its own kinds\<close>
  "gerar_alerta_critico dados = Some (Alerta_critico dados)"

definition despachar_critico :: "ambiente \<Rightarrow> alertas_criticos \<Rightarrow> estados \<Rightarrow> string \<Rightarrow> estados" where
  \<comment> \<open>the body of \<^verbatim>\<open>for tipo in tipos_criticos\<close>\<close>
  "despachar_critico env ac st tipo =
     (let ativo_agora = (tipo \<in> set (map fst ac));
          (deve_enviar, st1) = should_send_critical tipo ativo_agora st
      in if deve_enviar \<and> ativo_agora then
           (case find (\<lambda>(t, d). t = tipo) ac of
              None \<Rightarrow> st1
            | Some (t, dados) \<Rightarrow>
                (case gerar_alerta_critico dados of
                   None \<Rightarrow> st1
                 | Some msg \<Rightarrow>
                     if enviar_whatsapp env msg
                     then update_critical_state (agora env) tipo True st1
                     else st1))
         else if deve_enviar \<and> \<not> ativo_agora then
           update_critical_state (agora env) tipo False st1
         else st1)"

definition despachar_criticos :: "ambiente \<Rightarrow> alertas_criticos \<Rightarrow> estados \<Rightarrow> estados" where
  "despachar_criticos env ac st = foldl (despachar_critico env ac) st tipos_criticos"

definition enviar_relatorio :: "ambiente \<Rightarrow> string \<Rightarrow> bool \<Rightarrow> mensagem \<Rightarrow> real \<Rightarrow> real option \<Rightarrow> estados \<Rightarrow> erro + estados" where
  \<comment> \<open>one branch of \<^verbatim>\<open>if transicao == ...\<close>\<close>
  "enviar_relatorio env tipo resumo texto rad_atual rad_anterior st =
     (if should_send_report (agora env) tipo rad_atual rad_anterior st then
        (if resumo then
           entao (compor env texto) (\<lambda>msg.
             if enviar_whatsapp env msg then update_report (agora env) tipo st else Inr st)
         else Inr st)
      else Inr st)"

definition relatorios_do_ciclo :: "ambiente \<Rightarrow> string option \<Rightarrow> real \<Rightarrow> real option \<Rightarrow> estados \<Rightarrow> erro + estados" where
  "relatorios_do_ciclo env transicao rad_atual rad_anterior st =
     (case transicao of
        None \<Rightarrow> Inr st
      | Some t \<Rightarrow>
          if t = ''bom_dia'' then
            enviar_relatorio env ''bom_dia'' (night_summary env) Relatorio_bom_dia
              rad_atual rad_anterior st
          else if t = ''boa_noite'' then
            enviar_relatorio env ''boa_noite'' (day_summary env) Relatorio_boa_noite
              rad_atual rad_anterior st
          else Inr st)"







text \<open>
  The six domains as \<^verbatim>\<open>processar_zonas\<close> handles them: the key of the zone entry in
  the state document with the classifier, the detector and the renderer of the class.
\<close>

definition dominios :: "(string \<times> (real \<Rightarrow> string) \<times> (datetime \<Rightarrow> real \<Rightarrow> estado_zona \<Rightarrow> mudanca option) \<times> (mudanca \<Rightarrow> erro + mensagem option)) list" where
  "dominios =
     [(''temperatura'', ZonaTemperatura_classificar, ZonaTemperatura_detectar_mudanca,
         ZonaTemperatura_gerar_alerta_inteligente),
      (''umidade'', ZonaUmidade_classificar, ZonaUmidade_detectar_mudanca,
         ZonaUmidade_gerar_alerta_inteligente),
      (''vento'', ZonaVento_classificar, ZonaVento_detectar_mudanca,
         ZonaVento_gerar_alerta_inteligente),
      (''chuva'', ZonaChuva_classificar, ZonaChuva_detectar_mudanca,
         ZonaChuva_gerar_alerta_inteligente),
      (''radiacao'', ZonaRadiacao_classificar, ZonaRadiacao_detectar_mudanca,
         ZonaRadiacao_gerar_alerta_inteligente),
      (''pressao'', ZonaPressao_classificar, ZonaPressao_detectar_mudanca,
         ZonaPressao_gerar_alerta_inteligente)]"

subsection \<open>Sample inputs\<close>


definition leitura_exemplo :: leitura where
  "leitura_exemplo =
     [(''timestamp'', Some 0), (''tem_ins'', Some 24.4), (''umd_ins'', Some 60),
      (''pre_ins'', Some 1015), (''ven_vel'', Some 2), (''ven_raj'', Some 4),
      (''chuva'', Some 0), (''rad_glo'', Some 10)]"

definition leitura_1h_exemplo :: leitura where
  "leitura_1h_exemplo =
     [(''tem_ins'', Some 24), (''umd_ins'', Some 60), (''pre_ins'', Some 1015),
      (''ven_vel'', Some 2), (''ven_raj'', Some 4), (''chuva'', Some 0), (''rad_glo'', Some 0)]"

definition ambiente_exemplo :: "leitura \<Rightarrow> bool \<Rightarrow> datetime \<Rightarrow> ambiente" where
  "ambiente_exemplo l envia agr =
     \<lparr>conecta = True, latest_reading = Some l, reading_1h = Some leitura_1h_exemplo,
      reading_3h = None, accumulated_rain_24h = 0, pressure_variation_1h = 0,
      night_summary = True, day_summary = True, insights_ok = True,
      compoe = (\<lambda>m. True), enviar_whatsapp = (\<lambda>m. envia), agora = agr\<rparr>"




section \<open>Verified properties\<close>

subsection \<open>Zone classification\<close>

lemma temperatura_tabela:
  "ZonaTemperatura_classificar x = spec_classify spec_tabela_temperatura ''EXTREMO'' x"
  by (simp add: ZonaTemperatura_classificar_def spec_tabela_temperatura_def config_defs)

lemma umidade_tabela:
  "ZonaUmidade_classificar x = spec_classify spec_tabela_umidade ''MUITO_ALTA'' x"
  by (simp add: ZonaUmidade_classificar_def spec_tabela_umidade_def)

lemma vento_tabela:
  "ZonaVento_classificar x = spec_classify spec_tabela_vento ''VENTANIA'' x"
  by (simp add: ZonaVento_classificar_def spec_tabela_vento_def config_defs)

lemma chuva_tabela:
  "ZonaChuva_classificar x = spec_classify spec_tabela_chuva ''MUITO_FORTE'' x"
  by (simp add: ZonaChuva_classificar_def spec_tabela_chuva_def config_defs)

lemma radiacao_tabela:
  "ZonaRadiacao_classificar x = spec_classify spec_tabela_radiacao ''EXTREMA'' x"
  by (simp add: ZonaRadiacao_classificar_def spec_tabela_radiacao_def config_defs)

lemma pressao_tabela:
  "ZonaPressao_classificar x = spec_classify spec_tabela_pressao ''MUITO_ALTA'' x"
  by (simp add: ZonaPressao_classificar_def spec_tabela_pressao_def)

lemma temperatura_pontos:
  "ZonaTemperatura_classificar 18.9 = ''FRIO''"
  "ZonaTemperatura_classificar 19.0 = ''FRESCO''"
  "ZonaTemperatura_classificar 32.9 = ''MUITO_QUENTE''"
  "ZonaTemperatura_classificar 33.0 = ''EXTREMO''"
  by (simp_all add: ZonaTemperatura_classificar_def config_defs)

lemma radiacao_noite: "r \<le> 0 \<Longrightarrow> ZonaRadiacao_classificar r = ''NOITE''"
  by (simp add: ZonaRadiacao_classificar_def)

lemma radiacao_crepusculo: "0 < r \<Longrightarrow> r < 50 \<Longrightarrow> ZonaRadiacao_classificar r = ''CREPUSCULO''"
  by (simp add: ZonaRadiacao_classificar_def)

text \<open>
  Claim C1. Each of the six classifiers is a function of the input value alone, and it
  agrees on every value with the table of section 4.1 read row by row (half-open bounds,
  last zone open-ended). For temperature, 18.9 is FRIO, 19.0 is FRESCO, 32.9 is
  MUITO_QUENTE and 33.0 is EXTREMO. For radiation, every value that is at most 0,
  negative ones included, is NOITE (no error), and every value strictly between 0 and 50
  is CREPUSCULO.
\<close>

theorem C1_classificar_segue_tabela:
  "(\<forall>x. ZonaTemperatura_classificar x = spec_classify spec_tabela_temperatura ''EXTREMO'' x) \<and>
   (\<forall>x. ZonaUmidade_classificar x = spec_classify spec_tabela_umidade ''MUITO_ALTA'' x) \<and>
   (\<forall>x. ZonaVento_classificar x = spec_classify spec_tabela_vento ''VENTANIA'' x) \<and>
   (\<forall>x. ZonaChuva_classificar x = spec_classify spec_tabela_chuva ''MUITO_FORTE'' x) \<and>
   (\<forall>x. ZonaRadiacao_classificar x = spec_classify spec_tabela_radiacao ''EXTREMA'' x) \<and>
   (\<forall>x. ZonaPressao_classificar x = spec_classify spec_tabela_pressao ''MUITO_ALTA'' x) \<and>
   ZonaTemperatura_classificar 18.9 = ''FRIO'' \<and>
   ZonaTemperatura_classificar 19.0 = ''FRESCO'' \<and>
   ZonaTemperatura_classificar 32.9 = ''MUITO_QUENTE'' \<and>
   ZonaTemperatura_classificar 33.0 = ''EXTREMO'' \<and>
   (\<forall>r. r \<le> 0 \<longrightarrow> ZonaRadiacao_classificar r = ''NOITE'') \<and>
   (\<forall>r. 0 < r \<and> r < 50 \<longrightarrow> ZonaRadiacao_classificar r = ''CREPUSCULO'')"
  using temperatura_tabela umidade_tabela vento_tabela chuva_tabela radiacao_tabela
    pressao_tabela temperatura_pontos radiacao_noite radiacao_crepusculo
  by blast

theorem C1_classificar_segue_tabela_witness:
  "(- 5 :: real) \<le> 0 \<and> ZonaRadiacao_classificar (- 5) = ''NOITE'' \<and>
   (0 :: real) < 49 \<and> (49 :: real) < 50 \<and> ZonaRadiacao_classificar 49 = ''CREPUSCULO''"
proof -
  have noite: "\<forall>r. r \<le> 0 \<longrightarrow> ZonaRadiacao_classificar r = ''NOITE''"
    and crep: "\<forall>r. 0 < r \<and> r < 50 \<longrightarrow> ZonaRadiacao_classificar r = ''CREPUSCULO''"
    using C1_classificar_segue_tabela by blast+
  have "ZonaRadiacao_classificar (- 5) = ''NOITE''"
    using noite [rule_format, of "- 5"] by simp
  moreover have "ZonaRadiacao_classificar 49 = ''CREPUSCULO''"
    using crep [rule_format, of 49] by simp
  ultimately show ?thesis by simp
qed

subsection \<open>Critical debounce\<close>

lemma get_critical_state_flag:
  "fst (get_critical_state tipo st) =
     (case alertas_criticos st of
        None \<Rightarrow> False
      | Some m \<Rightarrow> (case m tipo of None \<Rightarrow> False | Some c \<Rightarrow> ativo c))"
  by (simp add: get_critical_state_def criticos_de_def split: option.splits)

lemma should_send_critical_flag:
  "fst (should_send_critical tipo a st) = (a \<noteq> fst (get_critical_state tipo st))"
  by (auto simp: should_send_critical_def split: prod.splits)

lemma should_send_critical_estado:
  "snd (should_send_critical tipo a st) = garante_alertas_criticos st"
  by (simp add: should_send_critical_def get_critical_state_def split: prod.splits)

lemma criticos_de_garante [simp]: "criticos_de (garante_alertas_criticos st) = criticos_de st"
  by (simp add: criticos_de_def garante_alertas_criticos_def split: option.splits)

lemma criticos_de_update [simp]:
  "criticos_de (update_critical_state agr tipo a st) =
     (criticos_de st)(tipo \<mapsto> \<lparr>ativo = a, critico_ultima_mudanca = agr\<rparr>)"
  by (simp add: criticos_de_def update_critical_state_def)

text \<open>
  Claim C2. For every critical kind and every persisted state,
  \<^verbatim>\<open>should_send_critical(kind, active_now)\<close> is true exactly when \<open>active_now\<close> differs
  from the persisted flag of that kind (false when none is stored). The function does not
  read the clock, so the answer is false on every cycle where the two are equal, however
  long the condition has lasted; in particular it is false right after the flag was
  recorded with the same value, and asking does not change any persisted flag.
\<close>

theorem C2_should_send_critical_edge:
  "fst (should_send_critical tipo ativo_agora st) =
     (ativo_agora \<noteq> (case alertas_criticos st of
                         None \<Rightarrow> False
                       | Some m \<Rightarrow> (case m tipo of None \<Rightarrow> False | Some c \<Rightarrow> ativo c))) \<and>
   fst (should_send_critical tipo ativo_agora
          (update_critical_state agr tipo ativo_agora st)) = False \<and>
   fst (get_critical_state outro (snd (should_send_critical tipo ativo_agora st))) =
     fst (get_critical_state outro st)"
  by (simp add: should_send_critical_flag should_send_critical_estado
        get_critical_state_flag [symmetric])
     (simp add: get_critical_state_def)

subsection \<open>Zone transitions\<close>

lemma detectar_primeira:
  "zona e = None \<Longrightarrow> detectar_mudanca c agr v e = Some (Primeira_leitura (c v) v)"
  by (simp add: detectar_mudanca_def)

lemma detectar_mesma_zona:
  "zona e = Some z \<Longrightarrow> c v = z \<Longrightarrow> detectar_mudanca c agr v e = None"
  by (simp add: detectar_mudanca_def)

lemma detectar_outra_zona:
  "zona e = Some z \<Longrightarrow> c v \<noteq> z \<Longrightarrow>
     detectar_mudanca c agr v e = Some (Mudanca_zona z (c v) (valor e) v agr)"
  by (simp add: detectar_mudanca_def)

lemma dominios_casos:
  assumes "(nome, C, D, G) \<in> set dominios"
  shows "D = detectar_mudanca C \<and>
         (G = gerar_alerta_inteligente nome (if nome = ''temperatura'' then zonas_temperatura
             else if nome = ''umidade'' then zonas_umidade
             else if nome = ''vento'' then zonas_vento
             else if nome = ''chuva'' then zonas_chuva else zonas_pressao)
          \<or> G = ZonaRadiacao_gerar_alerta_inteligente)"
  using assms by (auto simp: dominios_def detectar_defs gerar_defs)

lemma gerar_primeira:
  assumes "(nome, C, D, G) \<in> set dominios"
  shows "G (Primeira_leitura z v) = Inr None"
  using dominios_casos [OF assms]
  by (auto simp: gerar_alerta_inteligente_def ZonaRadiacao_gerar_alerta_inteligente_def)

text \<open>
  Claim C3. For each of the six domains and every current value: when the persisted zone
  is null the detector returns a first-reading event and the renderer returns no message
  for it (so \<^verbatim>\<open>processar_zonas\<close> queues no alert and only notes the zone); when the
  persisted zone is the zone of the current value the detector returns nothing, whatever
  the value is inside the zone; when it is another zone the detector returns a zone-change
  event that carries the persisted zone and value and the current zone and value.
\<close>

theorem C3_detectar_mudanca_casos:
  assumes "(nome, C, D, G) \<in> set dominios"
  shows "(zona e = None \<longrightarrow>
            D agr v e = Some (Primeira_leitura (C v) v) \<and>
            G (Primeira_leitura (C v) v) = Inr None \<and>
            registrar_mudanca nome (D agr v e) G v (ai, ea) = Inr (ai, ea @ [(nome, C v, v)])) \<and>
         (zona e = Some z \<and> C v = z \<longrightarrow>
            D agr v e = None \<and>
            registrar_mudanca nome (D agr v e) G v (ai, ea) = Inr (ai, ea)) \<and>
         (zona e = Some z \<and> C v \<noteq> z \<longrightarrow>
            D agr v e = Some (Mudanca_zona z (C v) (valor e) v agr))"
proof -
  have D: "D = detectar_mudanca C"
    using dominios_casos [OF assms] by simp
  have G: "G (Primeira_leitura (C v) v) = Inr None"
    by (rule gerar_primeira [OF assms])
  show ?thesis
    unfolding D
    by (auto simp: detectar_primeira detectar_mesma_zona detectar_outra_zona G
          registrar_mudanca_def)
qed

theorem C3_detectar_mudanca_casos_witness:
  "(''temperatura'', ZonaTemperatura_classificar, ZonaTemperatura_detectar_mudanca,
      ZonaTemperatura_gerar_alerta_inteligente) \<in> set dominios \<and>
   ZonaTemperatura_detectar_mudanca 7 25 zona_vazia = Some (Primeira_leitura ''MORNO'' 25) \<and>
   ZonaTemperatura_gerar_alerta_inteligente (Primeira_leitura ''MORNO'' 25) = Inr None \<and>
   ZonaTemperatura_detectar_mudanca 7 26.9
      \<lparr>zona = Some ''MORNO'', valor = Some 24, ultima_mudanca = Some 3\<rparr> = None \<and>
   ZonaTemperatura_detectar_mudanca 7 27
      \<lparr>zona = Some ''MORNO'', valor = Some 24, ultima_mudanca = Some 3\<rparr> =
      Some (Mudanca_zona ''MORNO'' ''QUENTE'' (Some 24) 27 7)"
proof -
  have d: "(''temperatura'', ZonaTemperatura_classificar, ZonaTemperatura_detectar_mudanca,
      ZonaTemperatura_gerar_alerta_inteligente) \<in> set dominios"
    by (simp add: dominios_def)
  have c: "ZonaTemperatura_classificar 25 = ''MORNO''"
          "ZonaTemperatura_classificar 26.9 = ''MORNO''"
          "ZonaTemperatura_classificar 27 = ''QUENTE''"
    by (simp_all add: ZonaTemperatura_classificar_def config_defs)
  show ?thesis
    using d
      C3_detectar_mudanca_casos [OF d, of zona_vazia 7 25 "[]" "[]" "''MORNO''"]
      C3_detectar_mudanca_casos [OF d,
        of "\<lparr>zona = Some ''MORNO'', valor = Some 24, ultima_mudanca = Some 3\<rparr>" 7 "26.9" "[]" "[]" "''MORNO''"]
      C3_detectar_mudanca_casos [OF d,
        of "\<lparr>zona = Some ''MORNO'', valor = Some 24, ultima_mudanca = Some 3\<rparr>" 7 27 "[]" "[]" "''MORNO''"]
    by (simp add: c zona_vazia_def)
qed

subsection \<open>Critical conditions of pressure and temperature\<close>

lemma emite_lista_ou_None: "emite (lista_ou_None cs) t = (t \<in> set (map tipo_de cs))"
  by (simp add: emite_def lista_ou_None_def)

text \<open>
  Claim C4, as the code has it. The specification says that the sharp drop fires at a
  1-hour delta of -5.0 hPa or less; the code tests \<^verbatim>\<open>delta_1h < -5.0\<close>, so a delta of
  exactly -5.0 does not fire.
\<close>

theorem C4_queda_limite_counterexample:
  "ZonaPressao_verificar_critico 1010 (- 5.0) = None"
  by (simp add: ZonaPressao_verificar_critico_def lista_ou_None_def)

text \<open>
  Claim C4, amended. The pressure evaluator emits \<^verbatim>\<open>queda_brusca\<close> exactly when the
  1-hour delta is strictly below -5.0 hPa, and \<^verbatim>\<open>pressao_muito_baixa\<close> exactly when
  that test did not fire and the pressure is below 1005 hPa; the two are never emitted
  together. A reading of 1004 hPa with a delta of -6.0 hPa emits \<^verbatim>\<open>queda_brusca\<close> alone.
\<close>

theorem C4_pressao_critico_amended:
  "emite (ZonaPressao_verificar_critico p d) ''queda_brusca'' = (d < - 5.0) \<and>
   emite (ZonaPressao_verificar_critico p d) ''pressao_muito_baixa'' =
     (\<not> d < - 5.0 \<and> p < 1005) \<and>
   \<not> (emite (ZonaPressao_verificar_critico p d) ''queda_brusca'' \<and>
      emite (ZonaPressao_verificar_critico p d) ''pressao_muito_baixa'') \<and>
   ZonaPressao_verificar_critico 1004 (- 6.0) = Some [Queda_brusca 1004 (- 6.0)]"
proof -
  have geral: "emite (ZonaPressao_verificar_critico p d) ''queda_brusca'' = (d < - 5.0) \<and>
      emite (ZonaPressao_verificar_critico p d) ''pressao_muito_baixa'' =
        (\<not> d < - 5.0 \<and> p < 1005)"
    by (cases "d < - 5.0"; cases "p < 1005")
       (simp_all add: ZonaPressao_verificar_critico_def emite_def lista_ou_None_def)
  have ponto: "ZonaPressao_verificar_critico 1004 (- 6.0) = Some [Queda_brusca 1004 (- 6.0)]"
    by (simp add: ZonaPressao_verificar_critico_def lista_ou_None_def)
  from geral ponto show ?thesis by blast
qed

text \<open>
  Support for claim C5: with a prior reading whose temperature is present and not zero,
  the abrupt-change alert is emitted exactly when the two temperatures differ by 5.0
  degrees or more, and the heat and cold alerts depend on the current temperature only.
\<close>

lemma temperatura_critico_calor_frio:
  "emite (ZonaTemperatura_verificar_critico t l1h) ''calor_extremo'' = (t > 33.0)"
  "emite (ZonaTemperatura_verificar_critico t l1h) ''frio_extremo'' = (t < 18.0)"
  by (auto simp: ZonaTemperatura_verificar_critico_def emite_lista_ou_None Let_def config_defs
        split: option.splits)

lemma temperatura_critico_mudanca_brusca:
  assumes "l \<noteq> []" and "get_campo l ''tem_ins'' = Some ta" and "ta \<noteq> 0"
  shows "emite (ZonaTemperatura_verificar_critico t (Some l)) ''mudanca_brusca'' =
           (\<bar>t - ta\<bar> \<ge> 5.0)"
  using assms
  by (auto simp: ZonaTemperatura_verificar_critico_def emite_lista_ou_None Let_def)

text \<open>
  Claim C5 fails on the code at a prior temperature of exactly 0.0: the guard
  \<^verbatim>\<open>if temp_anterior:\<close> takes the number zero for a missing value. With a current
  temperature of 6.0 and a prior reading of 0.0 the difference is 6.0, and the evaluator
  returns the cold alert alone.
\<close>

theorem C5_mudanca_brusca_anterior_zero:
  "\<bar>6.0 - 0.0\<bar> \<ge> (5.0 :: real) \<and>
   ZonaTemperatura_verificar_critico 6.0 (Some [(''tem_ins'', Some 0.0)]) =
     Some [Frio_extremo 6.0 18.0] \<and>
   \<not> emite (ZonaTemperatura_verificar_critico 6.0 (Some [(''tem_ins'', Some 0.0)]))
       ''mudanca_brusca''"
  by (simp add: ZonaTemperatura_verificar_critico_def emite_def lista_ou_None_def
        get_campo_def config_defs)

subsection \<open>General alert\<close>












subsection \<open>Sunrise and sunset reports\<close>

lemma should_send_report_bom_dia:
  "should_send_report agr ''bom_dia'' ra rp st =
     ((\<exists>p. rp = Some p \<and> p \<le> 0 \<and> ra > 0) \<and>
      \<not> ja_enviou_hoje agr (ultimo_bom_dia (relatorios_de st)))"
  by (auto simp: should_send_report_def split: option.splits)

lemma should_send_report_boa_noite:
  "should_send_report agr ''boa_noite'' ra rp st =
     ((\<exists>p. rp = Some p \<and> p > 0 \<and> ra \<le> 0) \<and>
      \<not> ja_enviou_hoje agr (ultimo_boa_noite (relatorios_de st)))"
  by (auto simp: should_send_report_def split: option.splits)

lemma ja_enviou_hoje_registrado:
  "date t = date agr \<Longrightarrow> ja_enviou_hoje agr (Some (Isoformat t))"
  by (simp add: ja_enviou_hoje_def)

lemma update_report_registra:
  assumes "update_report t tipo st = Inr st'"
  shows "(tipo = ''bom_dia'' \<longrightarrow> ultimo_bom_dia (relatorios_de st') = Some (Isoformat t)) \<and>
         (tipo = ''boa_noite'' \<longrightarrow> ultimo_boa_noite (relatorios_de st') = Some (Isoformat t))"
  using assms
  by (auto simp: update_report_def relatorios_de_def split: option.splits if_splits)

lemma enviar_relatorio_muda:
  assumes "enviar_relatorio env tipo resumo texto ra rp st = Inr st'" and "st' \<noteq> st"
  shows "should_send_report (agora env) tipo ra rp st \<and> resumo \<and> enviar_whatsapp env texto"
  using assms
  by (auto simp: enviar_relatorio_def entao_def compor_def split: if_splits)

text \<open>
  Claim C7. \<^verbatim>\<open>should_send_report\<close> allows the sunrise report only when the prior
  radiation is present and at most 0 and the current radiation is above 0, and the sunset
  report only in the mirrored case. Once a report of a type is recorded with a time of
  today's date (as \<^verbatim>\<open>update_report\<close> records it), \<^verbatim>\<open>should_send_report\<close> refuses that
  type for every reading of the same date. The cycle sends and records a report only when
  \<^verbatim>\<open>should_send_report\<close> allows it: otherwise the report step leaves the state alone.
\<close>

theorem C7_relatorio_uma_vez_por_dia:
  "(should_send_report agr ''bom_dia'' ra rp st \<longrightarrow> (\<exists>p. rp = Some p \<and> p \<le> 0 \<and> ra > 0)) \<and>
   (should_send_report agr ''boa_noite'' ra rp st \<longrightarrow> (\<exists>p. rp = Some p \<and> p > 0 \<and> ra \<le> 0)) \<and>
   (ultimo_bom_dia (relatorios_de st) = Some (Isoformat t) \<and> date t = date agr \<longrightarrow>
      \<not> should_send_report agr ''bom_dia'' ra rp st) \<and>
   (ultimo_boa_noite (relatorios_de st) = Some (Isoformat t) \<and> date t = date agr \<longrightarrow>
      \<not> should_send_report agr ''boa_noite'' ra rp st) \<and>
   ((tipo = ''bom_dia'' \<or> tipo = ''boa_noite'') \<and> update_report t tipo st = Inr st' \<and>
    date t = date agr \<longrightarrow> \<not> should_send_report agr tipo ra rp st') \<and>
   (relatorios_do_ciclo env transicao ra rp st = Inr st'' \<and> st'' \<noteq> st \<longrightarrow>
      (transicao = Some ''bom_dia'' \<and> should_send_report (agora env) ''bom_dia'' ra rp st \<and>
       enviar_whatsapp env Relatorio_bom_dia) \<or>
      (transicao = Some ''boa_noite'' \<and> should_send_report (agora env) ''boa_noite'' ra rp st \<and>
       enviar_whatsapp env Relatorio_boa_noite))"
proof -
  have a: "should_send_report agr ''bom_dia'' ra rp st \<longrightarrow> (\<exists>p. rp = Some p \<and> p \<le> 0 \<and> ra > 0)"
    by (simp add: should_send_report_bom_dia)
  have b: "should_send_report agr ''boa_noite'' ra rp st \<longrightarrow> (\<exists>p. rp = Some p \<and> p > 0 \<and> ra \<le> 0)"
    by (simp add: should_send_report_boa_noite)
  have c: "ultimo_bom_dia (relatorios_de st) = Some (Isoformat t) \<and> date t = date agr \<longrightarrow>
      \<not> should_send_report agr ''bom_dia'' ra rp st"
    by (simp add: should_send_report_bom_dia ja_enviou_hoje_registrado)
  have d: "ultimo_boa_noite (relatorios_de st) = Some (Isoformat t) \<and> date t = date agr \<longrightarrow>
      \<not> should_send_report agr ''boa_noite'' ra rp st"
    by (simp add: should_send_report_boa_noite ja_enviou_hoje_registrado)
  have e: "(tipo = ''bom_dia'' \<or> tipo = ''boa_noite'') \<and> update_report t tipo st = Inr st' \<and>
    date t = date agr \<longrightarrow> \<not> should_send_report agr tipo ra rp st'"
    using update_report_registra [of t tipo st st']
    by (auto simp: should_send_report_bom_dia should_send_report_boa_noite
          ja_enviou_hoje_registrado)
  have f: "relatorios_do_ciclo env transicao ra rp st = Inr st'' \<and> st'' \<noteq> st \<longrightarrow>
      (transicao = Some ''bom_dia'' \<and> should_send_report (agora env) ''bom_dia'' ra rp st \<and>
       enviar_whatsapp env Relatorio_bom_dia) \<or>
      (transicao = Some ''boa_noite'' \<and> should_send_report (agora env) ''boa_noite'' ra rp st \<and>
       enviar_whatsapp env Relatorio_boa_noite)"
    by (auto simp: relatorios_do_ciclo_def split: option.splits if_splits
          dest: enviar_relatorio_muda)
  from a b c d e f show ?thesis by blast
qed


theorem C7_relatorio_uma_vez_por_dia_witness:
  "should_send_report 5 ''bom_dia'' 10 (Some 0) (create_default_states 0) \<and>
   should_send_report 5 ''boa_noite'' 0 (Some 10) (create_default_states 0) \<and>
   update_report 5 ''bom_dia'' (create_default_states 0) =
     Inr ((create_default_states 0)
            \<lparr>relatorios := Some \<lparr>ultimo_bom_dia = Some (Isoformat 5), ultimo_boa_noite = None\<rparr>\<rparr>) \<and>
   date 7 = date 5 \<and>
   \<not> should_send_report 7 ''bom_dia'' 10 (Some 0)
       ((create_default_states 0)
          \<lparr>relatorios := Some \<lparr>ultimo_bom_dia = Some (Isoformat 5), ultimo_boa_noite = None\<rparr>\<rparr>) \<and>
   \<not> should_send_report 7 ''boa_noite'' 0 (Some 10)
       ((create_default_states 0)
          \<lparr>relatorios := Some \<lparr>ultimo_bom_dia = None, ultimo_boa_noite = Some (Isoformat 5)\<rparr>\<rparr>) \<and>
   relatorios_do_ciclo (ambiente_exemplo leitura_exemplo True 5) (Some ''bom_dia'') 10 (Some 0)
       (create_default_states 0) =
     Inr ((create_default_states 0)
            \<lparr>relatorios := Some \<lparr>ultimo_bom_dia = Some (Isoformat 5), ultimo_boa_noite = None\<rparr>\<rparr>) \<and>
   enviar_whatsapp (ambiente_exemplo leitura_exemplo True 5) Relatorio_bom_dia"
proof -
  let ?st0 = "create_default_states 0"
  let ?st1 = "?st0\<lparr>relatorios := Some \<lparr>ultimo_bom_dia = Some (Isoformat 5),
                                           ultimo_boa_noite = None\<rparr>\<rparr>"
  let ?st2 = "?st0\<lparr>relatorios := Some \<lparr>ultimo_bom_dia = None,
                                           ultimo_boa_noite = Some (Isoformat 5)\<rparr>\<rparr>"
  let ?env = "ambiente_exemplo leitura_exemplo True 5"
  have s1: "should_send_report 5 ''bom_dia'' 10 (Some 0) ?st0"
    and s2: "should_send_report 5 ''boa_noite'' 0 (Some 10) ?st0"
    by (simp_all add: should_send_report_def ja_enviou_hoje_def relatorios_de_def
          create_default_states_def)
  have u: "update_report 5 ''bom_dia'' ?st0 = Inr ?st1"
    by (simp add: update_report_def create_default_states_def)
  have dt: "date 7 = date 5"
    by (simp add: date_def)
  have r1: "ultimo_bom_dia (relatorios_de ?st1) = Some (Isoformat 5)"
    and r2: "ultimo_boa_noite (relatorios_de ?st2) = Some (Isoformat 5)"
    by (simp_all add: relatorios_de_def)
  have n1: "\<not> should_send_report 7 ''bom_dia'' 10 (Some 0) ?st1"
    using C7_relatorio_uma_vez_por_dia [where tipo = "''bom_dia''" and t = 5 and agr = 7
        and st = ?st0 and st' = ?st1 and ra = 10 and rp = "Some 0"] u dt
    by simp
  have n2: "\<not> should_send_report 7 ''boa_noite'' 0 (Some 10) ?st2"
    using C7_relatorio_uma_vez_por_dia [where t = 5 and agr = 7 and st = ?st2
        and ra = 0 and rp = "Some 10"] r2 dt
    by simp
  have c: "relatorios_do_ciclo ?env (Some ''bom_dia'') 10 (Some 0) ?st0 = Inr ?st1"
    by (simp add: relatorios_do_ciclo_def enviar_relatorio_def entao_def compor_def
          ambiente_exemplo_def should_send_report_def ja_enviou_hoje_def relatorios_de_def
          update_report_def create_default_states_def)
  have "relatorios ?st1 \<noteq> relatorios ?st0"
    by (simp add: create_default_states_def)
  then have ne: "?st1 \<noteq> ?st0"
    by metis
  have e: "enviar_whatsapp ?env Relatorio_bom_dia"
    using C7_relatorio_uma_vez_por_dia [where env = ?env and transicao = "Some ''bom_dia''"
        and ra = 10 and rp = "Some 0" and st = ?st0 and st'' = ?st1] c ne
    by simp
  from s1 s2 u dt n1 n2 c e show ?thesis by blast
qed

subsection \<open>What a cycle records\<close>

lemma zonas_garante [simp]: "zonas (garante_alertas_criticos st) = zonas st"
  by (simp add: garante_alertas_criticos_def split: option.splits)

lemma zonas_update_critical [simp]: "zonas (update_critical_state agr tipo a st) = zonas st"
  by (simp add: update_critical_state_def)

lemma zonas_despachar_critico [simp]: "zonas (despachar_critico env ac st tipo) = zonas st"
  by (simp add: despachar_critico_def Let_def should_send_critical_def get_critical_state_def
        gerar_alerta_critico_def split: prod.splits option.splits)

lemma zonas_foldl_despachar:
  "zonas (foldl (despachar_critico env ac) st ts) = zonas st"
  by (induction ts arbitrary: st) simp_all

lemma zonas_despachar_criticos [simp]: "zonas (despachar_criticos env ac st) = zonas st"
  by (simp add: despachar_criticos_def zonas_foldl_despachar)









subsection \<open>One cycle on the sample inputs\<close>





lemma atualizar_zonas_outros [simp]:
  "alerta_geral (atualizar_zonas agr ea st) = alerta_geral st"
  "relatorios (atualizar_zonas agr ea st) = relatorios st"
  "alertas_criticos (atualizar_zonas agr ea st) = alertas_criticos st"
  unfolding atualizar_zonas_def
  by (induction ea arbitrary: st; simp add: update_zone_state_def split: prod.splits)+

lemma garante_outros [simp]:
  "alerta_geral (garante_alertas_criticos st) = alerta_geral st"
  "relatorios (garante_alertas_criticos st) = relatorios st"
  by (simp_all add: garante_alertas_criticos_def split: option.splits)

lemma garante_idem [simp]:
  "garante_alertas_criticos (garante_alertas_criticos st) = garante_alertas_criticos st"
  by (simp add: garante_alertas_criticos_def split: option.splits)







subsection \<open>Dispatch outcome and recorded state\<close>








subsection \<open>Readings with a missing field\<close>




















end
